theory Spec2Isabelle
  imports Main
begin

section \<open>Data model\<close>

text \<open>
  The kanban handlers of \<^verbatim>\<open>server.js\<close> work on two tables through the models
  of \<^verbatim>\<open>models/Task.js\<close> and \<^verbatim>\<open>models/ProjectStatus.js\<close>. A task row has the
  attributes the Task model declares, under the names it declares them
  (\<^verbatim>\<open>projectId\<close> for the column \<^verbatim>\<open>project_id\<close>, here the field
  \<open>task_projectId\<close>, and \<^verbatim>\<open>createdBy\<close> for \<^verbatim>\<open>created_by\<close>); the model
  declares no \<^verbatim>\<open>status\<close>. Descriptive attributes
  that no ordering decision depends on (description, priority, assignee, due date,
  the row timestamps) are left out. Identifiers are the numbers of the JSON bodies
  and of the primary keys; a table is the list of its rows in insertion order, and
  the auto-increment counters are part of the state. Points in time are natural
  numbers.
\<close>

record task =
  task_id :: nat
  title :: string
  status_id :: "nat option"
  position :: int
  task_projectId :: nat
  createdBy :: nat
  completedAt :: "nat option"

record project_status =
  ps_id :: nat
  ps_project_id :: nat
  status_key :: string
  ps_title :: string
  color :: string
  order_index :: int
  is_default :: bool
  is_active :: bool

record db =
  tasks :: "task list"
  statuses :: "project_status list"
  next_task_id :: nat
  next_status_id :: nat

record user =
  user_id :: nat
  role :: string

text \<open>
  What a handler answers: the two success codes with their payload, the literal
  error answers, and the answer of the \<^verbatim>\<open>catch\<close> block of the kanban handlers
  (status 400 with the message of the thrown error).
\<close>

datatype 'a response =
    Ok200 'a
  | Created201 'a
  | Status400 string
  | Status403
  | Status404
  | Caught400

section \<open>The Task model\<close>

text \<open>
  The attribute names of \<^verbatim>\<open>sequelize.define('Task', ...)\<close>. An instance has a
  property for each of them and for no other name: reading another name yields
  \<^verbatim>\<open>undefined\<close>, and \<^verbatim>\<open>create\<close> and \<^verbatim>\<open>update\<close> drop a key that is
  not among them.
\<close>

definition Task_attributes :: "string list" where
  "Task_attributes =
     [''id'', ''title'', ''description'', ''status_id'', ''position'', ''priority'',
      ''projectId'', ''assignedTo'', ''createdBy'', ''dueDate'', ''completedAt'']"

definition declared :: "string \<Rightarrow> bool" where
  "declared k = (k \<in> set Task_attributes)"

text \<open>
  \<^verbatim>\<open>task.project_id\<close>, as the move handler reads it: the project column, if the
  model exposes it under this name, and \<^verbatim>\<open>undefined\<close> (\<open>None\<close>) otherwise.
\<close>

definition read_project_id :: "task \<Rightarrow> nat option" where
  "read_project_id inst = (if declared ''project_id'' then Some (task_projectId inst) else None)"

text \<open>
  A condition whose value is \<^verbatim>\<open>undefined\<close> is not a condition the query builder
  accepts. What it does with one is the library's affair: it throws, or it builds a
  comparison that no row satisfies. Both are kept, as a parameter of the handlers.
\<close>

datatype undefined_where = Throws | MatchesNoRow

section \<open>Storage statements\<close>

text \<open>
  Every \<^verbatim>\<open>await\<close> on a writing call is one statement, sent and committed on
  its own: none of the handlers below opens a transaction. A statement may throw
  (lock timeout, lost connection, a value the query builder refuses); the predicate
  \<open>fails\<close> says which statements of a request do, by their number in the order
  of the source. \<open>exec\<close> is a sequence of awaited statements: it stops at the
  first one that throws, and \<open>Inl\<close> carries the table as it is at that moment.
  The handlers that write with a single statement (create and delete) are modelled
  with that statement succeeding; when it throws, nothing has been written.
\<close>

type_synonym stmt = "task list \<Rightarrow> task list option"

definition no_fault :: "nat \<Rightarrow> bool" where
  "no_fault k = False"

fun exec :: "(nat \<Rightarrow> bool) \<Rightarrow> nat \<Rightarrow> ('s \<Rightarrow> 's option) list \<Rightarrow> 's \<Rightarrow> 's + 's" where
  "exec fails k [] s = Inr s"
| "exec fails k (w # ws) s =
     (if fails k then Inl s
      else case w s of None \<Rightarrow> Inl s | Some s' \<Rightarrow> exec fails (Suc k) ws s')"

definition findByPk :: "nat \<Rightarrow> task list \<Rightarrow> task option" where
  "findByPk i ts = find (\<lambda>r. task_id r = i) ts"

text \<open>
  \<^verbatim>\<open>Task.update({ position: sequelize.literal('position + d') }, { where })\<close>:
  one UPDATE over every row the condition selects.
\<close>

definition Task_update :: "(task \<Rightarrow> bool) \<Rightarrow> int \<Rightarrow> stmt" where
  "Task_update wh d ts =
     Some (map (\<lambda>r. if wh r then r\<lparr>position := position r + d\<rparr> else r) ts)"

text \<open>
  The \<^verbatim>\<open>beforeUpdate\<close> hook of the Task model. \<open>changed\<close> lists the names for
  which \<^verbatim>\<open>task.changed(name)\<close> holds; \<open>now_status\<close> and \<open>previous_status\<close>
  are what \<^verbatim>\<open>task.status\<close> and \<^verbatim>\<open>task._previousDataValues.status\<close> yield,
  \<open>None\<close> for \<^verbatim>\<open>undefined\<close>.
\<close>

definition beforeUpdate :: "nat \<Rightarrow> string list \<Rightarrow> string option \<Rightarrow> string option \<Rightarrow> task \<Rightarrow> task" where
  "beforeUpdate now changed now_status previous_status t =
     (if ''status'' \<in> set changed then
        (if now_status = Some ''completed'' \<and> previous_status \<noteq> Some ''completed''
           then t\<lparr>completedAt := Some now\<rparr>
         else if now_status \<noteq> Some ''completed'' then t\<lparr>completedAt := None\<rparr>
         else t)
      else t)"

text \<open>
  \<^verbatim>\<open>statusMapping[newStatus.status_key] || 'todo'\<close>. The mapping is an object
  literal, so a lookup finds its three own properties and, for any other key, what
  the literal inherits from \<^verbatim>\<open>Object.prototype\<close>: a function or an object,
  which is truthy and therefore is the value of the expression. Only a key that is
  found nowhere yields \<^verbatim>\<open>undefined\<close> and the default.
\<close>

datatype jsval = JString string | JInherited string

definition object_prototype_keys :: "string list" where
  "object_prototype_keys =
     [''constructor'', ''__defineGetter__'', ''__defineSetter__'', ''hasOwnProperty'',
      ''__lookupGetter__'', ''__lookupSetter__'', ''isPrototypeOf'',
      ''propertyIsEnumerable'', ''toString'', ''valueOf'', ''__proto__'',
      ''toLocaleString'']"

definition statusMapping :: "string \<Rightarrow> jsval option" where
  "statusMapping k =
     (if k = ''todo'' then Some (JString ''todo'')
      else if k = ''in-progress'' then Some (JString ''in-progress'')
      else if k = ''completed'' then Some (JString ''completed'')
      else if k \<in> set object_prototype_keys then Some (JInherited k)
      else None)"

definition enumStatus :: "string \<Rightarrow> jsval" where
  "enumStatus k = (case statusMapping k of Some v \<Rightarrow> v | None \<Rightarrow> JString ''todo'')"

text \<open>
  The two instance updates of the move handler. Each writes the declared attributes
  among its keys to the row with the instance's primary key; the hook runs first
  and what it assigns is written too. \<^verbatim>\<open>task.update({ position })\<close> changes no
  status, so the hook assigns nothing there.
  \<^verbatim>\<open>task.update({ status_id, position, status: enumStatus })\<close> carries the key
  \<^verbatim>\<open>status\<close>, which the model does not declare: the key is dropped whatever its
  value, it is not among the changed names, and the instance has no status to read.
  The instance holds the row as it was loaded and no statement of the handler
  writes \<^verbatim>\<open>completedAt\<close> in between, so writing the instance's value back leaves
  the column as it is.
\<close>

definition update_position :: "task \<Rightarrow> int \<Rightarrow> stmt" where
  "update_position inst p ts =
     Some (map (\<lambda>r. if task_id r = task_id inst then r\<lparr>position := p\<rparr> else r) ts)"

definition update_status :: "nat \<Rightarrow> task \<Rightarrow> nat \<Rightarrow> int \<Rightarrow> jsval \<Rightarrow> stmt" where
  "update_status now inst sid p v ts =
     (let changed = (if status_id inst \<noteq> Some sid then [''status_id''] else [])
                    @ (if position inst \<noteq> p then [''position''] else [])
                    @ (if declared ''status'' then [''status''] else []);
          assigned = beforeUpdate now changed None None
                       (inst\<lparr>status_id := Some sid, position := p\<rparr>)
      in Some (map (\<lambda>r. if task_id r = task_id inst
                         then r\<lparr>status_id := Some sid, position := p,
                                completedAt := completedAt assigned\<rparr>
                         else r) ts))"

section \<open>PUT /api/tasks/:id/status\<close>

text \<open>
  \<^verbatim>\<open>ProjectStatus.findOne({ where: { id: status_id, project_id: task.project_id, is_active: true } })\<close>.
  \<open>Inl\<close> is the lookup throwing, \<open>Inr None\<close> is no row found.
\<close>

definition findOne_status ::
  "undefined_where \<Rightarrow> project_status list \<Rightarrow> nat \<Rightarrow> nat option \<Rightarrow> unit + project_status option" where
  "findOne_status undef ss sid pid =
     (case pid of
        None \<Rightarrow> (case undef of Throws \<Rightarrow> Inl () | MatchesNoRow \<Rightarrow> Inr None)
      | Some p \<Rightarrow> Inr (find (\<lambda>s. ps_id s = sid \<and> ps_project_id s = p \<and> is_active s) ss))"

text \<open>The writing statements of one move, in the order the handler awaits them.\<close>

definition move_statements :: "nat \<Rightarrow> task \<Rightarrow> project_status \<Rightarrow> nat \<Rightarrow> int \<Rightarrow> stmt list" where
  "move_statements now inst newStatus sid pos =
     (let oldStatusId = status_id inst; oldPosition = position inst in
      (if oldStatusId = Some sid then
         (if oldPosition < pos then
            [Task_update (\<lambda>r. status_id r = Some sid \<and> oldPosition < position r \<and> position r \<le> pos) (- 1)]
          else if oldPosition > pos then
            [Task_update (\<lambda>r. status_id r = Some sid \<and> pos \<le> position r \<and> position r < oldPosition) 1]
          else [])
       else
         [Task_update (\<lambda>r. status_id r = oldStatusId \<and> oldPosition < position r) (- 1),
          Task_update (\<lambda>r. status_id r = Some sid \<and> pos \<le> position r) 1,
          update_status now inst sid pos (enumStatus (status_key newStatus))])
      @ (if oldStatusId = Some sid then [update_position inst pos] else []))"

definition moveTask ::
  "undefined_where \<Rightarrow> (nat \<Rightarrow> bool) \<Rightarrow> nat \<Rightarrow> db \<Rightarrow> nat \<Rightarrow> nat \<Rightarrow> int
     \<Rightarrow> task option response \<times> db" where
  "moveTask undef fails now d i sid pos =
     (case findByPk i (tasks d) of
        None \<Rightarrow> (Status404, d)
      | Some inst \<Rightarrow>
          (case findOne_status undef (statuses d) sid (read_project_id inst) of
             Inl _ \<Rightarrow> (Caught400, d)
           | Inr None \<Rightarrow> (Status400 ''Invalid status'', d)
           | Inr (Some newStatus) \<Rightarrow>
               (case exec fails 0 (move_statements now inst newStatus sid pos) (tasks d) of
                  Inl ts \<Rightarrow> (Caught400, d\<lparr>tasks := ts\<rparr>)
                | Inr ts \<Rightarrow> (Ok200 (findByPk (task_id inst) ts), d\<lparr>tasks := ts\<rparr>))))"

section \<open>DELETE /api/tasks/:id\<close>

definition deleteTask :: "user \<Rightarrow> db \<Rightarrow> nat \<Rightarrow> unit response \<times> db" where
  "deleteTask u d i =
     (case findByPk i (tasks d) of
        None \<Rightarrow> (Status404, d)
      | Some inst \<Rightarrow>
          if role u \<noteq> ''admin'' \<and> createdBy inst \<noteq> user_id u then (Status403, d)
          else (Ok200 (), d\<lparr>tasks := filter (\<lambda>r. task_id r \<noteq> task_id inst) (tasks d)\<rparr>))"

section \<open>POST /api/tasks\<close>

text \<open>
  \<^verbatim>\<open>Task.findOne({ where: { status_id: defaultStatus?.id }, order: [['position', 'DESC']] })\<close>:
  a row of the lane with the greatest position, if the lane has a row. Without a
  default lane the condition's value is \<^verbatim>\<open>undefined\<close>.
\<close>

fun last_by_position :: "task list \<Rightarrow> task option" where
  "last_by_position [] = None"
| "last_by_position (r # rs) =
     (case last_by_position rs of
        None \<Rightarrow> Some r
      | Some m \<Rightarrow> if position r < position m then Some m else Some r)"

definition lastTask :: "undefined_where \<Rightarrow> nat option \<Rightarrow> task list \<Rightarrow> unit + task option" where
  "lastTask undef sid ts =
     (case sid of
        None \<Rightarrow> (case undef of Throws \<Rightarrow> Inl () | MatchesNoRow \<Rightarrow> Inr None)
      | Some l \<Rightarrow> Inr (last_by_position (filter (\<lambda>r. status_id r = Some l) ts)))"

text \<open>
  \<^verbatim>\<open>Task.create\<close> validates what the model declares: the title
  (\<^verbatim>\<open>len: [1, 200]\<close> and \<^verbatim>\<open>notEmpty\<close>, which refuses a title of white space
  only) and the two attributes without a default that must not be null,
  \<^verbatim>\<open>projectId\<close> and \<^verbatim>\<open>createdBy\<close>. \<open>None\<close> is the statement throwing.
  White space is what \<^verbatim>\<open>\s\<close> matches among one-byte characters.
\<close>

definition is_space :: "char \<Rightarrow> bool" where
  "is_space c = (c \<in> set [CHR 0x09, CHR 0x0A, CHR 0x0B, CHR 0x0C, CHR 0x0D, CHR '' '', CHR 0xA0])"

definition valid_title :: "string \<Rightarrow> bool" where
  "valid_title t = (1 \<le> length t \<and> length t \<le> 200 \<and> list_ex (\<lambda>c. \<not> is_space c) t)"

definition Task_create ::
  "db \<Rightarrow> string \<Rightarrow> nat option \<Rightarrow> int \<Rightarrow> nat option \<Rightarrow> nat option \<Rightarrow> (task \<times> db) option" where
  "Task_create d ttl sid p pid cb =
     (case pid of
        None \<Rightarrow> None
      | Some pj \<Rightarrow>
          (case cb of
             None \<Rightarrow> None
           | Some c \<Rightarrow>
               if \<not> valid_title ttl then None
               else
                 let created = \<lparr>task_id = next_task_id d, title = ttl, status_id = sid,
                                position = p, task_projectId = pj, createdBy = c,
                                completedAt = None\<rparr>
                 in Some (created,
                          d\<lparr>tasks := tasks d @ [created], next_task_id := Suc (next_task_id d)\<rparr>)))"

text \<open>
  The handler passes the project and the creator under the keys
  \<^verbatim>\<open>project_id\<close> and \<^verbatim>\<open>created_by\<close> (the route has no authentication
  middleware, so \<^verbatim>\<open>req.user?.id || 1\<close> is 1), and a key \<^verbatim>\<open>status\<close>. A key
  reaches the model only if the model declares it.
\<close>

definition createTask :: "undefined_where \<Rightarrow> db \<Rightarrow> string \<Rightarrow> nat \<Rightarrow> task response \<times> db" where
  "createTask undef d title' project_id' =
     (let defaultStatus =
            find (\<lambda>s. ps_project_id s = project_id' \<and> status_key s = ''todo'' \<and> is_active s)
              (statuses d)
      in case lastTask undef (map_option ps_id defaultStatus) (tasks d) of
           Inl _ \<Rightarrow> (Caught400, d)
         | Inr l \<Rightarrow>
             let newPosition = (case l of Some m \<Rightarrow> position m + 1 | None \<Rightarrow> 0)
             in case Task_create d title' (map_option ps_id defaultStatus) newPosition
                       (if declared ''project_id'' then Some project_id' else None)
                       (if declared ''created_by'' then Some 1 else None) of
                  None \<Rightarrow> (Caught400, d)
                | Some (created, d') \<Rightarrow> (Created201 created, d'))"

section \<open>POST /api/statuses\<close>

text \<open>
  \<^verbatim>\<open>title.toLowerCase().replace(/\s+/g, '-').replace(/[^a-z0-9-]/g, '')\<close>
  on a title of one-byte characters.
\<close>

definition toLowerCase :: "char \<Rightarrow> char" where
  "toLowerCase c =
     (case map_of (zip ''ABCDEFGHIJKLMNOPQRSTUVWXYZ'' ''abcdefghijklmnopqrstuvwxyz'') c of
        Some l \<Rightarrow> l | None \<Rightarrow> c)"

text \<open>\<open>hyphenate\<close> reads the title left to right; the flag says that the previous
  character was white space, so that a run of white space gives one hyphen.\<close>

fun hyphenate :: "bool \<Rightarrow> string \<Rightarrow> string" where
  "hyphenate in_run [] = []"
| "hyphenate in_run (c # cs) =
     (if is_space c then (if in_run then hyphenate True cs else CHR ''-'' # hyphenate True cs)
      else c # hyphenate False cs)"

definition key_char :: "char \<Rightarrow> bool" where
  "key_char c = (c \<in> set ''abcdefghijklmnopqrstuvwxyz0123456789-'')"

definition derive_key :: "string \<Rightarrow> string" where
  "derive_key t = filter key_char (hyphenate False (map toLowerCase t))"

text \<open>
  \<^verbatim>\<open>ProjectStatus.findOne({ where: { project_id }, order: [['order_index', 'DESC']] })\<close>:
  the condition names the project only.
\<close>

fun last_by_order :: "project_status list \<Rightarrow> project_status option" where
  "last_by_order [] = None"
| "last_by_order (s # ss) =
     (case last_by_order ss of
        None \<Rightarrow> Some s
      | Some m \<Rightarrow> if order_index s < order_index m then Some m else Some s)"

text \<open>
  An empty string stands for an absent body field as well: both are falsy. The
  unique index on \<^verbatim>\<open>(project_id, status_key)\<close> makes the insert throw on a
  key the project already has.
\<close>

definition createStatus ::
  "db \<Rightarrow> string \<Rightarrow> string \<Rightarrow> nat \<Rightarrow> string \<Rightarrow> project_status response \<times> db" where
  "createStatus d title' color' project_id' status_key' =
     (if title' = [] \<or> project_id' = 0 then (Status400 ''Title and project_id are required'', d)
      else
        let lastStatus = last_by_order (filter (\<lambda>s. ps_project_id s = project_id') (statuses d));
            newOrderIndex = (case lastStatus of Some l \<Rightarrow> order_index l + 1 | None \<Rightarrow> 0);
            generatedKey = (if status_key' \<noteq> [] then status_key' else derive_key title');
            created = \<lparr>ps_id = next_status_id d, ps_project_id = project_id',
                       status_key = generatedKey, ps_title = title',
                       color = (if color' \<noteq> [] then color' else ''#6b7280''),
                       order_index = newOrderIndex, is_default = False, is_active = True\<rparr>
        in if list_ex (\<lambda>s. ps_project_id s = project_id' \<and> status_key s = generatedKey) (statuses d)
           then (Caught400, d)
           else (Created201 created,
                 d\<lparr>statuses := statuses d @ [created], next_status_id := Suc (next_status_id d)\<rparr>))"

section \<open>PUT /api/statuses/reorder/:projectId\<close>

text \<open>
  One UPDATE per element of \<^verbatim>\<open>statusIds\<close>, all started by \<^verbatim>\<open>map\<close> and
  awaited together by \<^verbatim>\<open>Promise.all\<close>: a statement that throws rejects the
  whole, and the others run all the same. The statements are applied in list order,
  which is what any interleaving gives when no identifier is listed twice.
  \<open>None\<close> stands for a body whose \<^verbatim>\<open>statusIds\<close> is not an array.
\<close>

definition ProjectStatus_update :: "nat \<Rightarrow> nat \<Rightarrow> nat \<Rightarrow> project_status list \<Rightarrow> project_status list" where
  "ProjectStatus_update index statusId projectId ss =
     map (\<lambda>s. if ps_id s = statusId \<and> ps_project_id s = projectId
              then s\<lparr>order_index := int index\<rparr> else s) ss"

fun run_all :: "(nat \<Rightarrow> bool) \<Rightarrow> nat \<Rightarrow> ('s \<Rightarrow> 's) list \<Rightarrow> 's \<Rightarrow> 's" where
  "run_all fails k [] s = s"
| "run_all fails k (w # ws) s = run_all fails (Suc k) ws (if fails k then s else w s)"

definition reorder ::
  "(nat \<Rightarrow> bool) \<Rightarrow> db \<Rightarrow> nat \<Rightarrow> nat list option \<Rightarrow> project_status list response \<times> db" where
  "reorder fails d projectId statusIds =
     (case statusIds of
        None \<Rightarrow> (Status400 ''statusIds must be an array'', d)
      | Some ids \<Rightarrow>
          let ss = run_all fails 0
                     (map (\<lambda>(index, statusId). ProjectStatus_update index statusId projectId)
                        (enumerate 0 ids))
                     (statuses d)
          in if list_ex fails [0..<length ids] then (Caught400, d\<lparr>statuses := ss\<rparr>)
             else (Ok200 (sort_key order_index
                            (filter (\<lambda>s. ps_project_id s = projectId \<and> is_active s) ss)),
                   d\<lparr>statuses := ss\<rparr>))"

section \<open>Lanes and density\<close>

definition lane_positions :: "nat \<Rightarrow> task list \<Rightarrow> int list" where
  "lane_positions l ts = map position (filter (\<lambda>r. status_id r = Some l) ts)"

definition dense :: "int list \<Rightarrow> bool" where
  "dense ps = (distinct ps \<and> set ps = {0..int (length ps) - 1})"

definition all_dense :: "db \<Rightarrow> bool" where
  "all_dense d = (\<forall>s \<in> set (statuses d). dense (lane_positions (ps_id s) (tasks d)))"

section \<open>A board to compute on\<close>

text \<open>
  Project 1 with the three default lanes (10, 11, 13), a custom lane titled
  ``Constructor'' (12) and a retired lane (14). Lane 10 holds tasks 1 to 4 at
  positions 0 to 3, lane 11 tasks 5 and 6, lane 13 task 7, completed at time 3.
\<close>

definition task_at :: "nat \<Rightarrow> nat \<Rightarrow> int \<Rightarrow> task" where
  "task_at i l p =
     \<lparr>task_id = i, title = ''task'', status_id = Some l, position = p,
      task_projectId = 1, createdBy = 1, completedAt = None\<rparr>"

definition lane_row :: "nat \<Rightarrow> string \<Rightarrow> int \<Rightarrow> bool \<Rightarrow> project_status" where
  "lane_row i k oi act =
     \<lparr>ps_id = i, ps_project_id = 1, status_key = k, ps_title = k, color = ''#6b7280'',
      order_index = oi, is_default = False, is_active = act\<rparr>"

definition board :: db where
  "board =
     \<lparr>tasks = [task_at 1 10 0, task_at 2 10 1, task_at 3 10 2, task_at 4 10 3,
               task_at 5 11 0, task_at 6 11 1,
               (task_at 7 13 0)\<lparr>completedAt := Some 3\<rparr>],
      statuses = [lane_row 10 ''todo'' 0 True, lane_row 11 ''in-progress'' 1 True,
                  lane_row 12 (derive_key ''Constructor'') 3 True,
                  lane_row 13 ''completed'' 2 True, lane_row 14 ''review'' 7 False],
      next_task_id = 8, next_status_id = 15\<rparr>"

definition three_lanes :: db where
  "three_lanes =
     \<lparr>tasks = [],
      statuses = [lane_row 1 ''todo'' 0 True, lane_row 2 ''in-progress'' 1 True,
                  lane_row 3 ''completed'' 2 True],
      next_task_id = 1, next_status_id = 4\<rparr>"

definition admin :: user where
  "admin = \<lparr>user_id = 9, role = ''admin''\<rparr>"

text \<open>
  The order index that the specification's wording gives a new lane: one more than
  the greatest order index among the project's active lanes, 0 without any. It is
  here to be compared with what \<open>createStatus\<close> assigns.
\<close>

definition spec_new_order_index :: "db \<Rightarrow> nat \<Rightarrow> int" where
  "spec_new_order_index d pid =
     (let act = filter (\<lambda>s. ps_project_id s = pid \<and> is_active s) (statuses d)
      in if act = [] then 0 else Max (set (map order_index act)) + 1)"

text \<open>The place of an identifier in the list of a reorder request.\<close>

definition index_in :: "nat list \<Rightarrow> nat \<Rightarrow> nat" where
  "index_in ids a = length (takeWhile (\<lambda>x. x \<noteq> a) ids)"

section \<open>Auxiliary facts\<close>

subsection \<open>Names the Task model does not declare\<close>

lemma undeclared_names:
  "\<not> declared ''project_id''" "\<not> declared ''created_by''" "\<not> declared ''status''"
  by (simp_all add: declared_def Task_attributes_def)

lemma read_project_id_undefined: "read_project_id inst = None"
  by (simp add: read_project_id_def undeclared_names)

text \<open>
  The lane lookup of the move handler never yields a lane, so no answer of the
  handler is a success and none of its statements is reached.
\<close>

lemma moveTask_answers:
  "fst (moveTask undef fails now d i sid pos) \<in>
     {Status404, Caught400, Status400 ''Invalid status''}"
  by (simp add: moveTask_def findOne_status_def read_project_id_undefined
      split: option.splits undefined_where.splits)

text \<open>
  The row update of the move handler, had it been reached, writes lane and position
  and leaves \<open>completedAt\<close> as it is.
\<close>

lemma update_status_keeps_completedAt:
  "update_status now inst sid p v ts =
     Some (map (\<lambda>r. if task_id r = task_id inst
                     then r\<lparr>status_id := Some sid, position := p,
                            completedAt := completedAt inst\<rparr>
                     else r) ts)"
  by (simp add: update_status_def beforeUpdate_def undeclared_names Let_def)

text \<open>\<^verbatim>\<open>Task.create\<close> never gets a project or a creator from the create handler.\<close>

lemma createTask_answers: "createTask undef d ttl pid = (Caught400, d)"
  by (simp add: createTask_def Task_create_def undeclared_names Let_def
      split: sum.splits)

subsection \<open>The last lane of a project\<close>

lemma last_by_order_None: "last_by_order rs = None \<longleftrightarrow> rs = []"
  by (induction rs) (auto split: option.splits)

lemma last_by_order_Max:
  "last_by_order rs = Some m \<Longrightarrow> m \<in> set rs \<and> order_index m = Max (set (map order_index rs))"
proof (induction rs arbitrary: m)
  case Nil
  then show ?case by simp
next
  case (Cons r rs)
  show ?case
  proof (cases "last_by_order rs")
    case None
    then have "rs = []" by (simp add: last_by_order_None)
    with Cons.prems show ?thesis by simp
  next
    case (Some m')
    then have ih: "m' \<in> set rs" "order_index m' = Max (set (map order_index rs))"
      using Cons.IH by auto
    have ne: "set (map order_index rs) \<noteq> {}" using ih(1) by auto
    have "Max (set (map order_index (r # rs))) = max (order_index r) (Max (set (map order_index rs)))"
      using ne by (simp add: Max_insert)
    with Cons.prems Some ih show ?thesis
      by (auto split: if_splits simp: max_def)
  qed
qed

subsection \<open>Dense position lists\<close>

lemma dense_eval: "dense ps = (sort ps = map int [0..<length ps])"
proof -
  let ?L = "map int [0..<length ps]"
  have L: "sorted ?L" "distinct ?L" "set ?L = {0..int (length ps) - 1}"
    by (auto simp: sorted_map distinct_map inj_on_def image_int_atLeastLessThan
        intro: sorted_wrt_mono_rel[of _ "(<)"] simp flip: sorted_wrt_map)
  show ?thesis
  proof
    assume "dense ps"
    then have "distinct (sort ps)" "set (sort ps) = set ?L"
      using L(3) by (simp_all add: dense_def)
    then show "sort ps = ?L"
      using L(1,2) sorted_distinct_set_unique sorted_sort by blast
  next
    assume e: "sort ps = ?L"
    have "distinct (sort ps)" "set (sort ps) = {0..int (length ps) - 1}"
      using L by (simp_all only: e)
    then show "dense ps" by (simp add: dense_def)
  qed
qed

subsection \<open>A reorder whose statements all succeed\<close>

text \<open>
  Each listed lane of the project gets its index in the list, lanes of other projects
  and identifiers that name no lane of the project are skipped without an error, and
  the answer lists the project's active lanes by order index.
\<close>

lemma run_all_reorder:
  assumes "\<And>j. \<not> fails j"
  shows "distinct ids \<Longrightarrow>
   run_all fails k
     (map (\<lambda>(index, statusId). ProjectStatus_update index statusId pid) (enumerate k ids)) ss =
   map (\<lambda>s. if ps_project_id s = pid \<and> ps_id s \<in> set ids
            then s\<lparr>order_index := int (k + index_in ids (ps_id s))\<rparr> else s) ss"
proof (induction ids arbitrary: k ss)
  case Nil
  then show ?case by simp
next
  case (Cons a ids)
  then have d: "distinct ids" and na: "a \<notin> set ids" by simp_all
  have "run_all fails k
     (map (\<lambda>(index, statusId). ProjectStatus_update index statusId pid) (enumerate k (a # ids))) ss =
     run_all fails (Suc k)
     (map (\<lambda>(index, statusId). ProjectStatus_update index statusId pid) (enumerate (Suc k) ids))
     (ProjectStatus_update k a pid ss)"
    by (simp add: assms)
  also have "\<dots> = map (\<lambda>s. if ps_project_id s = pid \<and> ps_id s \<in> set ids
            then s\<lparr>order_index := int (Suc k + index_in ids (ps_id s))\<rparr> else s)
          (ProjectStatus_update k a pid ss)"
    by (rule Cons.IH[OF d])
  also have "\<dots> = map (\<lambda>s. if ps_project_id s = pid \<and> ps_id s \<in> set (a # ids)
            then s\<lparr>order_index := int (k + index_in (a # ids) (ps_id s))\<rparr> else s) ss"
    using na by (auto simp: ProjectStatus_update_def index_in_def)
  finally show ?case .
qed

lemma reorder_assigns_index:
  assumes "distinct ids"
  shows "reorder no_fault d pid (Some ids) =
    (Ok200 (sort_key order_index (filter (\<lambda>s. ps_project_id s = pid \<and> is_active s)
        (map (\<lambda>s. if ps_project_id s = pid \<and> ps_id s \<in> set ids
                 then s\<lparr>order_index := int (index_in ids (ps_id s))\<rparr> else s) (statuses d)))),
     d\<lparr>statuses := map (\<lambda>s. if ps_project_id s = pid \<and> ps_id s \<in> set ids
                 then s\<lparr>order_index := int (index_in ids (ps_id s))\<rparr> else s) (statuses d)\<rparr>)"
proof -
  have nf: "\<And>j. \<not> no_fault j" by (simp add: no_fault_def)
  have "run_all no_fault 0
     (map (\<lambda>(index, statusId). ProjectStatus_update index statusId pid) (enumerate 0 ids)) (statuses d) =
     map (\<lambda>s. if ps_project_id s = pid \<and> ps_id s \<in> set ids
                 then s\<lparr>order_index := int (index_in ids (ps_id s))\<rparr> else s) (statuses d)"
    using run_all_reorder[of no_fault ids 0 pid "statuses d", OF nf assms] by (simp cong: if_cong)
  then show ?thesis
    by (simp add: reorder_def Let_def list_ex_iff nf)
qed

lemma reorder_scenario:
  "map (\<lambda>s. (ps_id s, order_index s)) (statuses (snd (reorder no_fault three_lanes 1 (Some [3, 1, 2]))))
     = [(1, 1), (2, 2), (3, 0)] \<and>
   map (\<lambda>s. (ps_id s, order_index s)) (statuses (snd (reorder no_fault three_lanes 1 (Some [3, 99, 1, 2]))))
     = [(1, 2), (2, 3), (3, 0)] \<and>
   (case fst (reorder no_fault three_lanes 1 (Some [3, 99, 1, 2])) of Ok200 ss \<Rightarrow> map ps_id ss | _ \<Rightarrow> [])
     = [3, 1, 2]"
  by (simp add: three_lanes_def lane_row_def reorder_def ProjectStatus_update_def
      enumerate_eq_zip upt_rec Let_def no_fault_def)

subsection \<open>Unfolding the handlers on the example board\<close>

lemmas board_defs = board_def task_at_def lane_row_def derive_key_def key_char_def
  toLowerCase_def is_space_def valid_title_def

lemmas move_defs = moveTask_def findByPk_def findOne_status_def read_project_id_def
  declared_def Task_attributes_def

section \<open>The claims\<close>


text \<open>
  C2. Starting from a board whose lanes are all dense, every lane is dense again
  after any sequence of task creations, moves and deletions. The delete handler
  destroys the row and closes no gap: on the example board, whose lanes are all
  dense, the deletion of task 2 leaves lane 10 with positions 0, 2, 3.
\<close>

theorem deleteTask_breaks_density:
  "all_dense board \<and>
   fst (deleteTask admin board 2) = Ok200 () \<and>
   lane_positions 10 (tasks (snd (deleteTask admin board 2))) = [0, 2, 3] \<and>
   \<not> all_dense (snd (deleteTask admin board 2))"
  by (simp add: board_defs all_dense_def lane_positions_def dense_eval upt_rec
      deleteTask_def findByPk_def admin_def)

text \<open>
  The lanes that the statement ranges over, with their positions before the
  deletion: each is dense, and the deletion changes lane 10 only.
\<close>

theorem deleteTask_breaks_density_witness:
  "map (\<lambda>s. (ps_id s, lane_positions (ps_id s) (tasks board))) (statuses board) =
     [(10, [0, 1, 2, 3]), (11, [0, 1]), (12, []), (13, [0]), (14, [])] \<and>
   all_dense board \<and>
   map (\<lambda>s. (ps_id s, lane_positions (ps_id s) (tasks (snd (deleteTask admin board 2)))))
       (statuses (snd (deleteTask admin board 2))) =
     [(10, [0, 2, 3]), (11, [0, 1]), (12, []), (13, [0]), (14, [])] \<and>
   \<not> all_dense (snd (deleteTask admin board 2))"
proof -
  have lanes: "map (\<lambda>s. (ps_id s, lane_positions (ps_id s) (tasks board))) (statuses board) =
     [(10, [0, 1, 2, 3]), (11, [0, 1]), (12, []), (13, [0]), (14, [])]"
    by (simp add: board_defs lane_positions_def)
  have after: "map (\<lambda>s. (ps_id s, lane_positions (ps_id s) (tasks (snd (deleteTask admin board 2)))))
       (statuses (snd (deleteTask admin board 2))) =
     [(10, [0, 2, 3]), (11, [0, 1]), (12, []), (13, [0]), (14, [])]"
    by (simp add: board_defs lane_positions_def deleteTask_def findByPk_def admin_def)
  show ?thesis
    using deleteTask_breaks_density lanes after by simp
qed

text \<open>
  C3. A move inside a lane from position \<open>old\<close> to position \<open>pos\<close> shifts the
  lane's tasks between the two positions by one and puts the moved task at
  \<open>pos\<close>; in the lane with tasks at 0, 1, 2, 3, moving the task at 1 to 3 gives
  0, 3, 1, 2. The handler holds these statements but does not reach them: in the
  scenario (task 2 of lane 10 to position 3) the lane lookup with the undefined
  project ends the request with status 400, by the \<^verbatim>\<open>catch\<close> block or by the
  ``Invalid status'' answer, and the lane is as before.
\<close>

theorem same_lane_move_is_refused:
  "lane_positions 10 (tasks board) = [0, 1, 2, 3] \<and>
   moveTask Throws no_fault 0 board 2 10 3 = (Caught400, board) \<and>
   moveTask MatchesNoRow no_fault 0 board 2 10 3 = (Status400 ''Invalid status'', board) \<and>
   map (\<lambda>r. (task_id r, position r)) (filter (\<lambda>r. status_id r = Some 10)
        (tasks (snd (moveTask Throws no_fault 0 board 2 10 3)))) = [(1, 0), (2, 1), (3, 2), (4, 3)]"
  by (simp add: board_defs move_defs lane_positions_def)

text \<open>
  C4. A move into another lane shifts the tasks behind the old position down, the
  tasks at and behind the target position up, and gives the moved task the target
  lane, the target position and the coarse status of the lane's key. The request
  that moves task 5 from lane 11 to the head of lane 10 is refused at the lane
  lookup like every move: task 5 stays at position 0 of lane 11, task 6 stays
  behind it, and lane 10 is not shifted.
\<close>

theorem cross_lane_move_is_refused:
  "moveTask Throws no_fault 0 board 5 10 0 = (Caught400, board) \<and>
   moveTask MatchesNoRow no_fault 0 board 5 10 0 = (Status400 ''Invalid status'', board) \<and>
   findByPk 5 (tasks board) = Some (task_at 5 11 0) \<and>
   lane_positions 11 (tasks board) = [0, 1] \<and>
   lane_positions 10 (tasks board) = [0, 1, 2, 3]"
  by (simp add: board_defs move_defs lane_positions_def)

text \<open>
  C5. Deleting a task shifts the tasks behind it in its lane down by one. The
  handler only destroys the row: after task 1 (position 0 of lane 10) is deleted,
  the lane's other tasks are still at positions 1, 2 and 3.
\<close>

theorem deleteTask_leaves_gap:
  "lane_positions 10 (tasks board) = [0, 1, 2, 3] \<and>
   fst (deleteTask admin board 1) = Ok200 () \<and>
   lane_positions 10 (tasks (snd (deleteTask admin board 1))) = [1, 2, 3]"
  by (simp add: board_defs deleteTask_def findByPk_def admin_def lane_positions_def)

text \<open>
  C6. A reorder gives each listed lane of the project its index in the list, as one
  atomic batch, and ignores foreign identifiers. The updates are separate statements
  awaited together: with lanes 1, 2, 3 at order 0, 1, 2 and the request [3, 1, 2],
  a failure of the second statement is answered with status 400 while lane 3 is
  at 0 and lane 2 at 2; lane 1 keeps 0, so two lanes share an order index.
\<close>

theorem reorder_failure_keeps_other_updates:
  "map (\<lambda>s. (ps_id s, order_index s)) (statuses three_lanes) = [(1, 0), (2, 1), (3, 2)] \<and>
   fst (reorder (\<lambda>k. k = 1) three_lanes 1 (Some [3, 1, 2])) = Caught400 \<and>
   map (\<lambda>s. (ps_id s, order_index s))
       (statuses (snd (reorder (\<lambda>k. k = 1) three_lanes 1 (Some [3, 1, 2])))) =
     [(1, 0), (2, 2), (3, 0)]"
  by (simp add: three_lanes_def lane_row_def reorder_def ProjectStatus_update_def
      enumerate_eq_zip upt_rec Let_def)

text \<open>
  C7. A new lane gets the greatest order index among the project's active lanes
  plus one, or 0. The handler's lookup does not ask for active lanes: on the example
  board the greatest active order index is 3 and the retired lane 14 has 7; the new
  lane gets 8, not 4.
\<close>

theorem createStatus_counts_retired_lanes:
  "(case fst (createStatus board ''QA'' [] 1 []) of
      Created201 s \<Rightarrow> order_index s | _ \<Rightarrow> - 1) = 8 \<and>
   spec_new_order_index board 1 = 4"
  by (simp add: board_defs createStatus_def spec_new_order_index_def Let_def)

text \<open>
  C7, as amended. A new lane gets the greatest order index among all lanes of the
  project, active or retired, plus one, or 0 if the project has no lane at all.
\<close>

theorem createStatus_order_index:
  assumes "createStatus d ttl col pid key = (Created201 created, d')"
  shows "order_index created =
           (if filter (\<lambda>s. ps_project_id s = pid) (statuses d) = [] then 0
            else Max (set (map order_index (filter (\<lambda>s. ps_project_id s = pid) (statuses d)))) + 1)"
proof -
  let ?rs = "filter (\<lambda>s. ps_project_id s = pid) (statuses d)"
  have idx: "(case last_by_order ?rs of Some l \<Rightarrow> order_index l + 1 | None \<Rightarrow> 0) =
      (if ?rs = [] then 0 else Max (set (map order_index ?rs)) + 1)"
  proof (cases "last_by_order ?rs")
    case None
    then show ?thesis by (simp add: last_by_order_None)
  next
    case (Some m)
    then have "?rs \<noteq> []" by auto
    with Some last_by_order_Max[OF Some] show ?thesis by simp
  qed
  from assms idx show ?thesis
    by (auto simp: createStatus_def Let_def split: if_splits)
qed

theorem createStatus_order_index_witness:
  "createStatus board ''QA'' [] 1 [] =
     (Created201 (lane_row 15 ''qa'' 8 True\<lparr>ps_title := ''QA''\<rparr>),
      board\<lparr>statuses := statuses board @ [lane_row 15 ''qa'' 8 True\<lparr>ps_title := ''QA''\<rparr>],
            next_status_id := 16\<rparr>) \<and>
   order_index (lane_row 15 ''qa'' 8 True\<lparr>ps_title := ''QA''\<rparr>) =
     Max (set (map order_index (filter (\<lambda>s. ps_project_id s = 1) (statuses board)))) + 1"
proof -
  have h: "createStatus board ''QA'' [] 1 [] =
     (Created201 (lane_row 15 ''qa'' 8 True\<lparr>ps_title := ''QA''\<rparr>),
      board\<lparr>statuses := statuses board @ [lane_row 15 ''qa'' 8 True\<lparr>ps_title := ''QA''\<rparr>],
            next_status_id := 16\<rparr>)"
    by (simp add: board_defs createStatus_def Let_def)
  have ne: "filter (\<lambda>s. ps_project_id s = 1) (statuses board) \<noteq> []"
    by (simp add: board_defs)
  show ?thesis
    using createStatus_order_index[OF h] h ne by simp
qed

text \<open>
  C8. A created task goes to the tail of its lane: its position is the greatest
  position in the lane plus one, or 0 in an empty lane, and no other task moves.
  The handler computes that position (4 for lane 10 of the example board) and
  hands the project and the creator to \<^verbatim>\<open>Task.create\<close> under names the model
  does not declare; both required attributes stay empty, the creation is refused
  and the request is answered with status 400. No task is created at any position.
\<close>

theorem createTask_is_refused:
  "lastTask Throws (Some 10) (tasks board) = Inr (Some (task_at 4 10 3)) \<and>
   createTask Throws board ''new'' 1 = (Caught400, board) \<and>
   createTask MatchesNoRow board ''new'' 1 = (Caught400, board)"
  by (simp add: board_defs createTask_def lastTask_def Task_create_def declared_def
      Task_attributes_def Let_def)

text \<open>
  C9. A move whose target lane and target position are the task's own, the lane
  being valid, is a no-op: nothing is shifted, the row is not modified and the task
  is returned unchanged. For task 2 at position 1 of lane 10 the table is indeed
  untouched, but the request ends at the lane lookup like every move: the answer
  is status 400 and carries no task.
\<close>

theorem noop_move_is_refused:
  "findByPk 2 (tasks board) = Some (task_at 2 10 1) \<and>
   moveTask Throws no_fault 0 board 2 10 1 = (Caught400, board) \<and>
   moveTask MatchesNoRow no_fault 0 board 2 10 1 = (Status400 ''Invalid status'', board) \<and>
   fst (moveTask Throws no_fault 0 board 2 10 1) \<noteq> Ok200 (Some (task_at 2 10 1)) \<and>
   fst (moveTask MatchesNoRow no_fault 0 board 2 10 1) \<noteq> Ok200 (Some (task_at 2 10 1))"
  by (simp add: board_defs move_defs)

text \<open>
  C10. An instance update that changes the coarse status stamps \<open>completedAt\<close>
  with the current time when the new status is \<open>completed\<close> and clears it when the
  new status is not; so a move into a lane keyed \<open>completed\<close> stamps the task and a
  move out of it clears the stamp. Neither happens. At time 42 the move of task 5
  into lane 13, keyed \<open>completed\<close>, is refused and task 5 has no stamp; the move of
  task 7 out of lane 13 is refused and its stamp of time 3 stays. The row update
  itself, applied to task 5, would set lane and position and still no stamp: the
  model declares no status, so the hook never sees one change.
\<close>

theorem completedAt_is_never_touched:
  "status_key (lane_row 13 ''completed'' 2 True) = ''completed'' \<and>
   moveTask Throws no_fault 42 board 5 13 1 = (Caught400, board) \<and>
   moveTask MatchesNoRow no_fault 42 board 5 13 1 = (Status400 ''Invalid status'', board) \<and>
   map_option completedAt (findByPk 5 (tasks board)) = Some None \<and>
   moveTask Throws no_fault 42 board 7 10 0 = (Caught400, board) \<and>
   moveTask MatchesNoRow no_fault 42 board 7 10 0 = (Status400 ''Invalid status'', board) \<and>
   map_option completedAt (findByPk 7 (tasks board)) = Some (Some 3) \<and>
   map_option (findByPk 5)
     (update_status 42 (task_at 5 11 0) 13 1 (enumStatus ''completed'') (tasks board)) =
     Some (Some (task_at 5 13 1))"
  by (simp add: board_defs move_defs update_status_def beforeUpdate_def
      enumStatus_def statusMapping_def Let_def)

end
